theory Spec2Isabelle
  imports Complex_Main "HOL-Library.AList"
begin

section \<open>Values, errors and data frames\<close>

text \<open>
  A float64 is a real number or NaN (\<open>None\<close>). Arithmetic is exact: rounding error and
  the infinities of IEEE arithmetic are outside this model.
\<close>

type_synonym float64 = "real option"

text \<open>
  A cell of a pandas column: a number, NaN (a missing value), a text, a timestamp
  (seconds since the epoch) or NaT. \<open>pd.read_csv\<close> delivers numbers, NaN and texts only;
  timestamps arise from \<open>pd.to_datetime\<close>.
\<close>

datatype cell = Num real | NaN | Str string | Time int | NaT

text \<open>A DataFrame: its columns in order, each with its name and its cells.\<close>

type_synonym frame = "(string \<times> cell list) list"

datatype error =
    FileNotFoundError
  | KeyError string
  | ValueError
  | NotFittedError
  | AttributeError
  | TypeError
  | IndexError
  | Exception string

definition then_e :: "error + 'a \<Rightarrow> ('a \<Rightarrow> error + 'b) \<Rightarrow> error + 'b" where
  "then_e m f = (case m of Inl e \<Rightarrow> Inl e | Inr x \<Rightarrow> f x)"

fun traverse :: "('a \<Rightarrow> error + 'b) \<Rightarrow> 'a list \<Rightarrow> error + 'b list" where
  "traverse f [] = Inr []"
| "traverse f (x # xs) =
     (case f x of Inl e \<Rightarrow> Inl e
      | Inr y \<Rightarrow> (case traverse f xs of Inl e \<Rightarrow> Inl e | Inr ys \<Rightarrow> Inr (y # ys)))"

fun fold_e :: "('a \<Rightarrow> 'b \<Rightarrow> error + 'b) \<Rightarrow> 'a list \<Rightarrow> 'b \<Rightarrow> error + 'b" where
  "fold_e f [] s = Inr s"
| "fold_e f (x # xs) s = (case f x s of Inl e \<Rightarrow> Inl e | Inr s' \<Rightarrow> fold_e f xs s')"

subsection \<open>float64 arithmetic\<close>

definition fadd :: "float64 \<Rightarrow> float64 \<Rightarrow> float64" where
  "fadd a b = (case (a, b) of (Some x, Some y) \<Rightarrow> Some (x + y) | _ \<Rightarrow> None)"

definition fsub :: "float64 \<Rightarrow> float64 \<Rightarrow> float64" where
  "fsub a b = (case (a, b) of (Some x, Some y) \<Rightarrow> Some (x - y) | _ \<Rightarrow> None)"

definition fmul :: "float64 \<Rightarrow> float64 \<Rightarrow> float64" where
  "fmul a b = (case (a, b) of (Some x, Some y) \<Rightarrow> Some (x * y) | _ \<Rightarrow> None)"

text \<open>
  A division by zero gives an infinity or NaN in IEEE arithmetic; the model has no
  infinities and returns NaN. A fitted scaler never has a zero scale, so the scaling code
  does not reach this case.
\<close>

definition fdiv :: "float64 \<Rightarrow> float64 \<Rightarrow> float64" where
  "fdiv a b =
     (case (a, b) of (Some x, Some y) \<Rightarrow> if y = 0 then None else Some (x / y) | _ \<Rightarrow> None)"

primrec finite_values :: "float64 list \<Rightarrow> real list" where
  "finite_values [] = []"
| "finite_values (x # xs) = (case x of None \<Rightarrow> finite_values xs | Some v \<Rightarrow> v # finite_values xs)"

text \<open>\<open>np.nanmin\<close> and \<open>np.nanmax\<close>: NaN is skipped; a column with nothing else gives NaN.\<close>

definition nanmin :: "float64 list \<Rightarrow> float64" where
  "nanmin xs = (let vs = finite_values xs in if vs = [] then None else Some (Min (set vs)))"

definition nanmax :: "float64 list \<Rightarrow> float64" where
  "nanmax xs = (let vs = finite_values xs in if vs = [] then None else Some (Max (set vs)))"

text \<open>\<open>np.nan_to_num(x, nan=0.0, posinf=0.0, neginf=0.0)\<close> on one value.\<close>

definition nan_to_num :: "float64 \<Rightarrow> real" where
  "nan_to_num x = (case x of None \<Rightarrow> 0 | Some v \<Rightarrow> v)"

subsection \<open>Frame operations\<close>


definition n_rows :: "frame \<Rightarrow> nat" where
  "n_rows df = (case df of [] \<Rightarrow> 0 | (c, xs) # _ \<Rightarrow> length xs)"

text \<open>\<open>DataFrame.empty\<close>: some axis has length 0.\<close>

definition empty :: "frame \<Rightarrow> bool" where
  "empty df = (df = [] \<or> n_rows df = 0)"

text \<open>\<open>df[c]\<close> raises KeyError on an unknown column.\<close>

definition getitem :: "frame \<Rightarrow> string \<Rightarrow> error + cell list" where
  "getitem df c = (case map_of df c of None \<Rightarrow> Inl (KeyError c) | Some xs \<Rightarrow> Inr xs)"

text \<open>\<open>df[c] = xs\<close> replaces the column, or appends it as the last one.\<close>

definition setitem :: "frame \<Rightarrow> string \<Rightarrow> cell list \<Rightarrow> frame" where
  "setitem df c xs = AList.update c xs df"

text \<open>\<open>df[mask]\<close>: the rows at which the boolean mask is true.\<close>

definition select_mask :: "bool list \<Rightarrow> 'a list \<Rightarrow> 'a list" where
  "select_mask bs xs = map snd (filter fst (zip bs xs))"

definition select_rows :: "bool list \<Rightarrow> frame \<Rightarrow> frame" where
  "select_rows bs df = map (\<lambda>(c, xs). (c, select_mask bs xs)) df"

definition take_rows :: "nat list \<Rightarrow> frame \<Rightarrow> frame" where
  "take_rows idx df = map (\<lambda>(c, xs). (c, map (\<lambda>i. xs ! i) idx)) df"

definition head :: "nat \<Rightarrow> frame \<Rightarrow> frame" where
  "head n df = map (\<lambda>(c, xs). (c, take n xs)) df"

definition rename :: "string \<Rightarrow> string \<Rightarrow> frame \<Rightarrow> frame" where
  "rename old new df = map (\<lambda>(c, xs). (if c = old then new else c, xs)) df"

definition row :: "frame \<Rightarrow> nat \<Rightarrow> cell list" where
  "row df i = map (\<lambda>(c, xs). xs ! i) df"

text \<open>
  \<open>drop_duplicates\<close> keeps the first of equal rows; a row is a duplicate when every cell
  equals (NaN counting as equal to NaN, as pandas does here).
\<close>

fun first_seen :: "'a list \<Rightarrow> 'a list \<Rightarrow> bool list" where
  "first_seen seen [] = []"
| "first_seen seen (r # rs) = (r \<notin> set seen) # first_seen (r # seen) rs"

definition drop_duplicates :: "frame \<Rightarrow> frame" where
  "drop_duplicates df = select_rows (first_seen [] (map (row df) [0..<n_rows df])) df"

text \<open>\<open>isna\<close>: a missing value.\<close>

definition isna :: "cell \<Rightarrow> bool" where
  "isna c = (c = NaN \<or> c = NaT)"

text \<open>The cells of a numeric column as a float array; a text there raises ValueError.\<close>

fun to_float :: "cell \<Rightarrow> error + float64" where
  "to_float (Num r) = Inr (Some r)"
| "to_float NaN = Inr None"
| "to_float (Str s) = Inl ValueError"
| "to_float (Time t) = Inl TypeError"
| "to_float NaT = Inl TypeError"

fun of_float :: "float64 \<Rightarrow> cell" where
  "of_float (Some r) = Num r"
| "of_float None = NaN"

text \<open>\<open>df[cols].values\<close>: the matrix of the named columns, one list per column.\<close>

definition values_of :: "frame \<Rightarrow> string list \<Rightarrow> error + float64 list list" where
  "values_of df cols = traverse (\<lambda>c. then_e (getitem df c) (traverse to_float)) cols"

text \<open>\<open>df[cols] = X\<close>: each named column is replaced by the matching column of the matrix.\<close>

definition set_columns :: "frame \<Rightarrow> string list \<Rightarrow> float64 list list \<Rightarrow> frame" where
  "set_columns df cols X = fold (\<lambda>(c, xs) d. setitem d c (map of_float xs)) (zip cols X) df"

section \<open>The min-max scaler\<close>

text \<open>
  \<open>sklearn.preprocessing.MinMaxScaler\<close> with its default feature range (0, 1), one entry
  per feature: the attributes \<open>data_min_\<close>, \<open>data_max_\<close>, \<open>data_range_\<close>, \<open>scale_\<close>
  and \<open>min_\<close>. A fresh scaler is unfitted.
\<close>

record minmax =
  sk_data_min :: "float64 list"
  sk_data_max :: "float64 list"
  sk_data_range :: "float64 list"
  sk_scale :: "float64 list"
  sk_min :: "float64 list"

datatype MinMaxScaler = Unfitted | Fitted minmax

definition eps :: real where
  "eps = 1 / 2 ^ 52"

text \<open>A range below ten machine epsilons counts as constant and is scaled by 1.\<close>

definition handle_zeros_in_scale :: "float64 \<Rightarrow> float64" where
  "handle_zeros_in_scale r =
     (case r of None \<Rightarrow> None | Some v \<Rightarrow> if v < 10 * eps then Some 1 else Some v)"

definition n_samples :: "float64 list list \<Rightarrow> nat" where
  "n_samples X = (case X of [] \<Rightarrow> 0 | c # _ \<Rightarrow> length c)"

text \<open>The input check of the scaler: at least one feature and one sample.\<close>

definition check_array :: "float64 list list \<Rightarrow> error + float64 list list" where
  "check_array X = (if X = [] \<or> n_samples X = 0 then Inl ValueError else Inr X)"

definition fit :: "float64 list list \<Rightarrow> error + minmax" where
  "fit X =
     then_e (check_array X) (\<lambda>X.
       let dmin = map nanmin X;
           dmax = map nanmax X;
           drange = map2 fsub dmax dmin;
           scl = map (\<lambda>r. fdiv (Some 1) (handle_zeros_in_scale r)) drange
       in Inr \<lparr> sk_data_min = dmin, sk_data_max = dmax, sk_data_range = drange,
                sk_scale = scl,
                sk_min = map2 (\<lambda>mn s. fsub (Some 0) (fmul mn s)) dmin scl \<rparr>)"

text \<open>One value of feature \<open>j\<close>: \<open>X *= scale_; X += min_\<close> and back \<open>X -= min_; X /= scale_\<close>.\<close>

definition transform1 :: "minmax \<Rightarrow> nat \<Rightarrow> float64 \<Rightarrow> float64" where
  "transform1 p j x = fadd (fmul x (sk_scale p ! j)) (sk_min p ! j)"

definition inverse1 :: "minmax \<Rightarrow> nat \<Rightarrow> float64 \<Rightarrow> float64" where
  "inverse1 p j x = fdiv (fsub x (sk_min p ! j)) (sk_scale p ! j)"

definition apply_features :: "(nat \<Rightarrow> float64 \<Rightarrow> float64) \<Rightarrow> float64 list list \<Rightarrow> float64 list list" where
  "apply_features f X = map (\<lambda>(j, c). map (f j) c) (zip [0..<length X] X)"

definition transform :: "MinMaxScaler \<Rightarrow> float64 list list \<Rightarrow> error + float64 list list" where
  "transform sc X =
     (case sc of Unfitted \<Rightarrow> Inl NotFittedError
      | Fitted p \<Rightarrow>
          then_e (check_array X) (\<lambda>X.
            if length X \<noteq> length (sk_scale p) then Inl ValueError
            else Inr (apply_features (transform1 p) X)))"

definition inverse_transform :: "MinMaxScaler \<Rightarrow> float64 list list \<Rightarrow> error + float64 list list" where
  "inverse_transform sc X =
     (case sc of Unfitted \<Rightarrow> Inl NotFittedError
      | Fitted p \<Rightarrow>
          then_e (check_array X) (\<lambda>X.
            if length X \<noteq> length (sk_scale p) then Inl ValueError
            else Inr (apply_features (inverse1 p) X)))"

definition fit_transform :: "float64 list list \<Rightarrow> error + MinMaxScaler \<times> float64 list list" where
  "fit_transform X =
     then_e (fit X) (\<lambda>p. then_e (transform (Fitted p) X) (\<lambda>Y. Inr (Fitted p, Y)))"

section \<open>Dashboards 1 and 2: loading and preprocessing\<close>

definition pollutant_cols :: "string list" where
  "pollutant_cols = [''AQI'', ''PM2.5'', ''PM10'', ''O3'', ''NO2'', ''SO2'', ''CO'']"

text \<open>
  \<open>pd.to_numeric(..., errors='coerce')\<close> on one cell. The parser of number texts is pandas'
  own and is a parameter \<open>pf\<close>: it gives the number, or \<open>None\<close> for a text that fails to
  parse. Datetime cells never reach this function in the loaders.
\<close>

fun to_numeric :: "(string \<Rightarrow> real option) \<Rightarrow> cell \<Rightarrow> cell" where
  "to_numeric pf (Num r) = Num r"
| "to_numeric pf (Str s) = (case pf s of Some r \<Rightarrow> Num r | None \<Rightarrow> NaN)"
| "to_numeric pf c = NaN"

text \<open>
  \<open>pd.to_datetime(..., errors='coerce')\<close> on one cell; the date parser is a parameter
  \<open>dt\<close> giving the seconds since the epoch, or \<open>None\<close> where the result is NaT.
\<close>

definition to_datetime :: "(cell \<Rightarrow> int option) \<Rightarrow> cell \<Rightarrow> cell" where
  "to_datetime dt c = (case dt c of Some t \<Rightarrow> Time t | None \<Rightarrow> NaT)"

primrec numeric_values :: "cell list \<Rightarrow> real list" where
  "numeric_values [] = []"
| "numeric_values (c # cs) = (case c of Num r \<Rightarrow> r # numeric_values cs | _ \<Rightarrow> numeric_values cs)"

text \<open>The median of a series skips NaN; it is NaN when nothing is left.\<close>

definition median :: "real list \<Rightarrow> float64" where
  "median xs =
     (let s = sort xs; n = length s
      in if n = 0 then None
         else if odd n then Some (s ! (n div 2))
         else Some ((s ! (n div 2 - 1) + s ! (n div 2)) / 2))"

definition fillna :: "float64 \<Rightarrow> cell \<Rightarrow> cell" where
  "fillna v c = (case c of NaN \<Rightarrow> of_float v | _ \<Rightarrow> c)"

text \<open>The comparison \<open>>= 0\<close> on a numeric column; it is false at NaN.\<close>

definition ge0 :: "cell \<Rightarrow> bool" where
  "ge0 c = (case c of Num r \<Rightarrow> 0 \<le> r | _ \<Rightarrow> False)"

text \<open>Step 2 of \<open>load_and_preprocess_data\<close>, loop by loop.\<close>

definition convert_time :: "(cell \<Rightarrow> int option) \<Rightarrow> frame \<Rightarrow> error + frame" where
  "convert_time dt df =
     then_e (getitem df ''Time'') (\<lambda>xs.
       Inr (rename ''Time'' ''timestamp'' (setitem df ''Time'' (map (to_datetime dt) xs))))"

definition convert_numeric :: "(string \<Rightarrow> real option) \<Rightarrow> frame \<Rightarrow> error + frame" where
  "convert_numeric pf df =
     fold_e (\<lambda>col d. then_e (getitem d col) (\<lambda>xs. Inr (setitem d col (map (to_numeric pf) xs))))
       pollutant_cols df"

definition medians_of :: "frame \<Rightarrow> error + (string \<times> float64) list" where
  "medians_of df =
     traverse (\<lambda>col. then_e (getitem df col) (\<lambda>xs. Inr (col, median (numeric_values xs))))
       pollutant_cols"

definition fill_medians :: "(string \<times> float64) list \<Rightarrow> frame \<Rightarrow> error + frame" where
  "fill_medians medians df =
     fold_e (\<lambda>col d. then_e (getitem d col) (\<lambda>xs.
         case map_of medians col of
           None \<Rightarrow> Inl (KeyError col)
         | Some m \<Rightarrow> Inr (setitem d col (map (fillna m) xs))))
       pollutant_cols df"

definition drop_negative :: "frame \<Rightarrow> error + frame" where
  "drop_negative df =
     fold_e (\<lambda>col d. then_e (getitem d col) (\<lambda>xs. Inr (select_rows (map ge0 xs) d)))
       pollutant_cols df"

definition clean :: "(string \<Rightarrow> real option) \<Rightarrow> (cell \<Rightarrow> int option) \<Rightarrow> frame \<Rightarrow> error + frame" where
  "clean pf dt df =
     then_e (convert_time dt (drop_duplicates df)) (\<lambda>d1.
     then_e (convert_numeric pf d1) (\<lambda>d2.
     then_e (medians_of d2) (\<lambda>medians.
     then_e (fill_medians medians d2) drop_negative)))"

text \<open>Step 3: \<open>df_clean[pollutant_cols] = scaler.fit_transform(df_clean[pollutant_cols])\<close>.\<close>

definition scale_frame :: "frame \<Rightarrow> error + frame \<times> MinMaxScaler" where
  "scale_frame df_clean =
     then_e (values_of df_clean pollutant_cols) (\<lambda>X.
     then_e (fit_transform X) (\<lambda>(sc, Y). Inr (set_columns df_clean pollutant_cols Y, sc)))"

text \<open>
  The module's globals. DataFrames are objects: \<open>objs\<close> is the store of the DataFrame
  objects created so far, and \<open>air_aware_data\<close> holds the address of one of them
  (\<open>None\<close> is Python's None). A scaler is changed only by fitting it, which this
  program does once, right where it creates it; it is held by value.
\<close>

record state =
  objs :: "frame list"
  air_aware_data :: "nat option"
  scaler :: "MinMaxScaler option"

definition new_obj :: "frame \<Rightarrow> state \<Rightarrow> nat \<times> state" where
  "new_obj df s = (length (objs s), s\<lparr>objs := objs s @ [df]\<rparr>)"

text \<open>The placeholder stored when the CSV file is missing; 2024-01-01 is 1704067200.\<close>

definition dummy_frame :: frame where
  "dummy_frame =
     [(''City'', [Str ''Loading Failed'']), (''timestamp'', [Time 1704067200]),
      (''PM2.5'', [Num 0]), (''AQI'', [Num 0])]"

text \<open>
  \<open>load_and_preprocess_data\<close>, the same text in Dashboards 1 and 2. The file system is the
  argument \<open>csv\<close>: what \<open>pd.read_csv\<close> returns, or \<open>None\<close> when the file is missing. The
  result is the new state with the value returned or the exception raised. The global
  \<open>scaler\<close> is assigned before \<open>fit_transform\<close> runs, \<open>air_aware_data\<close> after it.
\<close>

definition load_and_preprocess_data ::
  "(string \<Rightarrow> real option) \<Rightarrow> (cell \<Rightarrow> int option) \<Rightarrow> frame option \<Rightarrow> state
     \<Rightarrow> state \<times> (error + nat \<times> MinMaxScaler)" where
  "load_and_preprocess_data pf dt csv s =
     (case csv of
        None \<Rightarrow>
          (let (a, s1) = new_obj dummy_frame s;
               s2 = s1\<lparr>air_aware_data := Some a, scaler := Some Unfitted\<rparr>
           in (s2, Inr (a, Unfitted)))
      | Some df \<Rightarrow>
          (case clean pf dt df of
             Inl e \<Rightarrow> (s, Inl e)
           | Inr df_clean \<Rightarrow>
               (let s1 = s\<lparr>scaler := Some Unfitted\<rparr>
                in case scale_frame df_clean of
                     Inl e \<Rightarrow> (s1, Inl e)
                   | Inr (df_scaled, sc) \<Rightarrow>
                       (let (a, s2) = new_obj df_scaled (s1\<lparr>scaler := Some sc\<rparr>)
                        in (s2\<lparr>air_aware_data := Some a\<rparr>, Inr (a, sc))))))"


section \<open>Inverse scaling of one pollutant\<close>

text \<open>\<open>list.index\<close> raises ValueError when the element is absent.\<close>

fun index_of :: "'a list \<Rightarrow> 'a \<Rightarrow> error + nat" where
  "index_of [] y = Inl ValueError"
| "index_of (x # xs) y =
     (if x = y then Inr 0 else (case index_of xs y of Inl e \<Rightarrow> Inl e | Inr i \<Rightarrow> Inr (Suc i)))"

text \<open>
  \<open>_get_unscaled_series\<close> of Dashboard 2. The matrix \<open>temp_scaled\<close> is zero except for the
  column of the pollutant.
\<close>

definition unscale :: "frame \<Rightarrow> string \<Rightarrow> MinMaxScaler \<Rightarrow> string list \<Rightarrow> error + real list" where
  "unscale df pollutant_name sc cols =
     then_e (index_of cols pollutant_name) (\<lambda>pollutant_index.
     then_e (getitem df pollutant_name) (\<lambda>col.
     then_e (traverse to_float col) (\<lambda>vals.
       let temp_scaled =
             (replicate (length cols) (replicate (n_rows df) (Some 0)))[pollutant_index := vals]
       in then_e (inverse_transform sc temp_scaled) (\<lambda>unscaled_data_full.
            Inr (map nan_to_num (unscaled_data_full ! pollutant_index))))))"

definition get_unscaled_series ::
  "frame \<Rightarrow> string \<Rightarrow> MinMaxScaler \<Rightarrow> string list \<Rightarrow> error + real list" where
  "get_unscaled_series df pollutant_name sc cols =
     (if empty df then Inr [0] else unscale df pollutant_name sc cols)"

text \<open>Dashboard 1 differs in the empty case only: \<open>pd.Series([0]).dropna()\<close>.\<close>

definition get_unscaled_series_1 ::
  "frame \<Rightarrow> string \<Rightarrow> MinMaxScaler \<Rightarrow> string list \<Rightarrow> error + real list" where
  "get_unscaled_series_1 df pollutant_name sc cols =
     (if empty df then Inr (finite_values [Some 0]) else unscale df pollutant_name sc cols)"

section \<open>Responses and statistics\<close>

text \<open>
  The value that a route hands to \<open>jsonify\<close>: a Python dict is an association list in the
  order of the source, a float is a number or NaN.
\<close>

datatype json =
    JNum real | JNaN | JInt int | JStr string | JNull
  | JList "json list" | JObj "(string \<times> json) list"

fun json_of_float :: "float64 \<Rightarrow> json" where
  "json_of_float (Some r) = JNum r"
| "json_of_float None = JNaN"

fun json_of_cell :: "cell \<Rightarrow> json" where
  "json_of_cell (Num r) = JNum r"
| "json_of_cell NaN = JNaN"
| "json_of_cell (Str s) = JStr s"
| "json_of_cell (Time t) = JInt t"
| "json_of_cell NaT = JNull"

text \<open>Looking a key up in a dict, and an entry of a dict of dicts.\<close>

fun field :: "string \<Rightarrow> json \<Rightarrow> json option" where
  "field k (JObj kvs) = map_of kvs k"
| "field k j = None"


fun keys :: "json \<Rightarrow> string list" where
  "keys (JObj kvs) = map fst kvs"
| "keys j = []"

text \<open>Rounding to the nearest integer, a tie going to the even one, and \<open>round(x, 1)\<close>.\<close>

definition rint :: "real \<Rightarrow> int" where
  "rint x =
     (let f = \<lfloor>x\<rfloor>; d = x - of_int f
      in if d < 1 / 2 then f else if 1 / 2 < d then f + 1 else if even f then f else f + 1)"

definition round1 :: "real \<Rightarrow> real" where
  "round1 x = of_int (rint (x * 10)) / 10"

definition fround1 :: "float64 \<Rightarrow> float64" where
  "fround1 x = map_option round1 x"

text \<open>The statistics of a series of numbers; those of an empty series are NaN.\<close>

definition mean :: "real list \<Rightarrow> float64" where
  "mean xs = (if xs = [] then None else Some (sum_list xs / of_nat (length xs)))"

definition series_min :: "real list \<Rightarrow> float64" where
  "series_min xs = (if xs = [] then None else Some (Min (set xs)))"

definition series_max :: "real list \<Rightarrow> float64" where
  "series_max xs = (if xs = [] then None else Some (Max (set xs)))"

text \<open>The sample standard deviation (\<open>ddof = 1\<close>): NaN for fewer than two values.\<close>

definition std :: "real list \<Rightarrow> float64" where
  "std xs =
     (let n = length xs
      in if n \<le> 1 then None
         else (let m = sum_list xs / of_nat n
               in Some (sqrt (sum_list (map (\<lambda>x. (x - m)\<^sup>2) xs) / of_nat (n - 1)))))"

definition summary_of :: "real list \<Rightarrow> json" where
  "summary_of series =
     JObj [(''mean'', json_of_float (fround1 (mean series))),
           (''median'', json_of_float (fround1 (median series))),
           (''min'', json_of_float (fround1 (series_min series))),
           (''max'', json_of_float (fround1 (series_max series))),
           (''std_dev'', json_of_float (fround1 (std series))),
           (''data_points'', JInt (int (length series)))]"

text \<open>
  \<open>np.histogram\<close> with the edges 0, 20, 40, 60, 80, 100 and infinity: each bin holds its
  left edge and not its right one; a value below 0 is in no bin.
\<close>

definition dashboard_labels :: "string list" where
  "dashboard_labels = [''0-20'', ''20-40'', ''40-60'', ''60-80'', ''80-100'', ''100+'']"

definition count_in :: "real \<Rightarrow> real \<Rightarrow> real list \<Rightarrow> nat" where
  "count_in lo hi xs = length (filter (\<lambda>x. lo \<le> x \<and> x < hi) xs)"

definition histogram :: "real list \<Rightarrow> nat list" where
  "histogram xs =
     [count_in 0 20 xs, count_in 20 40 xs, count_in 40 60 xs, count_in 60 80 xs,
      count_in 80 100 xs, length (filter (\<lambda>x. 100 \<le> x) xs)]"

definition distribution_data :: "real list \<Rightarrow> json" where
  "distribution_data series =
     JObj [(''labels'', JList (map JStr dashboard_labels)),
           (''counts'', JList (map (\<lambda>n. JInt (int n)) (histogram series)))]"

text \<open>
  Pearson's correlation of two columns as \<open>DataFrame.corr()\<close> computes it, from the sums of
  the products of the deviations; it is NaN when there is no row or a column is constant.
\<close>

definition deviations :: "real list \<Rightarrow> real list" where
  "deviations xs = map (\<lambda>x. x - sum_list xs / of_nat (length xs)) xs"

definition pearson :: "real list \<Rightarrow> real list \<Rightarrow> float64" where
  "pearson xs ys =
     (let dx = deviations xs; dy = deviations ys;
          covxy = sum_list (map2 (*) dx dy);
          divisor = sqrt (sum_list (map (\<lambda>a. a\<^sup>2) dx) * sum_list (map (\<lambda>b. b\<^sup>2) dy))
      in if xs = [] \<or> divisor = 0 then None else Some (covxy / divisor))"

text \<open>\<open>df.corr().abs().to_dict()\<close>: for each column the dict of its correlations.\<close>

definition corr_abs :: "(string \<times> real list) list \<Rightarrow> (string \<times> (string \<times> float64) list) list" where
  "corr_abs cols =
     map (\<lambda>(p, xs). (p, map (\<lambda>(q, ys). (q, map_option abs (pearson xs ys))) cols)) cols"

definition json_of_matrix :: "(string \<times> (string \<times> float64) list) list \<Rightarrow> json" where
  "json_of_matrix m = JObj (map (\<lambda>(p, inner). (p, JObj (map (\<lambda>(q, v). (q, json_of_float v)) inner))) m)"

text \<open>
  Section 5 of \<open>get_dashboard_data\<close>: the pollutant columns are unscaled, the column AQI is
  dropped, NaN is replaced by 0 and the absolute correlations are returned.
\<close>

definition correlation_data :: "frame \<Rightarrow> MinMaxScaler \<Rightarrow> error + json" where
  "correlation_data df sc =
     then_e (values_of df pollutant_cols) (\<lambda>temp_scaled_full.
     then_e (inverse_transform sc temp_scaled_full) (\<lambda>unscaled.
       let unscaled_pollutant_df =
             filter (\<lambda>(c, xs). c \<noteq> ''AQI'') (zip pollutant_cols unscaled);
           filled = map (\<lambda>(c, xs). (c, map nan_to_num xs)) unscaled_pollutant_df
       in Inr (json_of_matrix (corr_abs filled))))"

text \<open>\<open>Timestamp.strftime('%H:%M')\<close> for a time in seconds since the epoch.\<close>

definition digit :: "nat \<Rightarrow> char" where
  "digit d = char_of (48 + d)"

definition two_digits :: "nat \<Rightarrow> string" where
  "two_digits n = [digit (n div 10 mod 10), digit (n mod 10)]"

definition strftime_HM :: "int \<Rightarrow> string" where
  "strftime_HM t = two_digits (nat (t div 3600 mod 24)) @ '':'' @ two_digits (nat (t div 60 mod 60))"

text \<open>The accessor \<open>.dt\<close> raises AttributeError on a column that holds no datetimes.\<close>

fun dt_strftime :: "cell \<Rightarrow> error + json" where
  "dt_strftime (Time t) = Inr (JStr (strftime_HM t))"
| "dt_strftime NaT = Inr JNull"
| "dt_strftime c = Inl AttributeError"

definition time_series_data :: "frame \<Rightarrow> string \<Rightarrow> error + json" where
  "time_series_data df pollutant =
     then_e (getitem df ''timestamp'') (\<lambda>ts.
     then_e (traverse dt_strftime ts) (\<lambda>x.
     then_e (getitem df pollutant) (\<lambda>y.
       Inr (JObj [(''x'', JList x), (''y'', JList (map json_of_cell y))]))))"

section \<open>Dashboard 2: the simulated model output\<close>

text \<open>
  The random generator is a parameter: the stream \<open>rng\<close> of the draws from [0, 1) in the
  order in which the code asks for them. \<open>uniform(lo, hi)\<close> is \<open>lo + (hi - lo) * u\<close> for the
  next draw \<open>u\<close>.
\<close>

definition uniform :: "real \<Rightarrow> real \<Rightarrow> real \<Rightarrow> real" where
  "uniform lo hi u = lo + (hi - lo) * u"

definition pollutants_for_eval :: "string list" where
  "pollutants_for_eval = [''PM2.5'', ''PM10'', ''O3'', ''NO2'']"

definition models_list :: "string list" where
  "models_list = [''ARIMA'', ''Prophet'', ''LSTM'', ''XGBoost'']"

text \<open>The k-th model draws its four RMSE values and then its four MAE values.\<close>

definition rmse_of :: "(nat \<Rightarrow> real) \<Rightarrow> nat \<Rightarrow> real list" where
  "rmse_of rng k = map (\<lambda>j. uniform (1 / 100) (8 / 100) (rng (8 * k + j))) [0..<4]"

definition mae_of :: "(nat \<Rightarrow> real) \<Rightarrow> nat \<Rightarrow> real list" where
  "mae_of rng k = map (\<lambda>j. uniform (5 / 1000) (5 / 100) (rng (8 * k + 4 + j))) [0..<4]"

definition performance_data :: "(nat \<Rightarrow> real) \<Rightarrow> json" where
  "performance_data rng =
     JObj ((''labels'', JList (map JStr pollutants_for_eval)) #
           map (\<lambda>(k, m). (m, JObj [(''rmse'', JList (map JNum (rmse_of rng k))),
                                    (''mae'', JList (map JNum (mae_of rng k)))]))
             (enumerate 0 models_list))"

fun string_of_nat :: "nat \<Rightarrow> string" where
  "string_of_nat n =
     (if n < 10 then [digit n] else string_of_nat (n div 10) @ [digit (n mod 10)])"

definition forecast_hours :: "int \<Rightarrow> json list" where
  "forecast_hours horizon =
     map (\<lambda>h. JStr (''+'' @ string_of_nat h @ ''H'')) [1..<Suc (nat horizon)]"

text \<open>The result for an empty frame: zeros, and no best model.\<close>

definition empty_model_data :: "(nat \<Rightarrow> real) \<Rightarrow> int \<Rightarrow> json" where
  "empty_model_data rng horizon =
     (let h = nat horizon
      in JObj [(''performance'', performance_data rng),
               (''forecast'',
                 JObj [(''labels'',
                          JList (map (\<lambda>h. JStr (two_digits h @ '':00'')) [0..<20] @
                                 forecast_hours horizon)),
                       (''actual'', JList (replicate 20 (JInt 0) @ replicate h JNull)),
                       (''forecast'', JList (replicate 20 JNull @ replicate h (JInt 0))),
                       (''ci_lower'', JList (replicate 20 JNull @ replicate h (JInt 0))),
                       (''ci_upper'', JList (replicate 20 JNull @ replicate h (JInt 0)))]),
               (''accuracy_table'',
                 JList (map (\<lambda>p. JObj [(''pollutant'', JStr p), (''best_model'', JStr ''N/A''),
                                        (''rmse'', JInt 0), (''mae'', JInt 0)])
                          pollutants_for_eval))])"

text \<open>The dict of the trend factors; an unknown model name raises KeyError.\<close>

definition trend_factor :: "string \<Rightarrow> error + real" where
  "trend_factor selected_model =
     (case map_of [(''LSTM'', 5 / 100), (''Prophet'', 4 / 100), (''ARIMA'', 3 / 100),
                   (''XGBoost'', 6 / 100)] selected_model of
        None \<Rightarrow> Inl (KeyError selected_model)
      | Some f \<Rightarrow> Inr f)"

text \<open>\<open>historical_pm25[-1] if historical_pm25 else 0.1\<close>.\<close>

definition last_actual_of :: "cell list \<Rightarrow> cell" where
  "last_actual_of historical_pm25 =
     (if historical_pm25 = [] then Num (1 / 10) else last historical_pm25)"

text \<open>
  The forecast for the hours 1 to \<open>horizon\<close>; the 32 draws before them went into the
  performance data. A last value that is no number cannot be added to one and raises
  TypeError, at the first hour.
\<close>

definition forecast_values ::
  "cell \<Rightarrow> real \<Rightarrow> int \<Rightarrow> (nat \<Rightarrow> real) \<Rightarrow> error + float64 list" where
  "forecast_values last_actual trend horizon rng =
     traverse (\<lambda>i.
         case last_actual of
           Num r \<Rightarrow> Inr (Some (r + of_nat i * trend +
                                uniform (- (1 / 100)) (1 / 100) (rng (32 + (i - 1)))))
         | NaN \<Rightarrow> Inr None
         | _ \<Rightarrow> Inl TypeError)
       [1..<Suc (nat horizon)]"

definition ci_lower_of :: "float64 list \<Rightarrow> float64 list" where
  "ci_lower_of fs = map (\<lambda>(i, f). fsub f (Some (2 / 100 * of_nat i))) (enumerate 0 fs)"

definition ci_upper_of :: "float64 list \<Rightarrow> float64 list" where
  "ci_upper_of fs = map (\<lambda>(i, f). fadd f (Some (2 / 100 * of_nat i))) (enumerate 0 fs)"

text \<open>\<open>min(rmses, key=rmses.get)\<close>: the first model with the least RMSE.\<close>

definition best_model :: "(nat \<times> real) list \<Rightarrow> nat" where
  "best_model rmses = fst (foldl (\<lambda>b kv. if snd kv < snd b then kv else b) (hd rmses) (tl rmses))"

definition accuracy_table :: "(nat \<Rightarrow> real) \<Rightarrow> json" where
  "accuracy_table rng =
     JList (map (\<lambda>(i, p).
         let k = best_model (map (\<lambda>k. (k, rmse_of rng k ! i)) [0..<4])
         in JObj [(''pollutant'', JStr p), (''best_model'', JStr (models_list ! k)),
                  (''rmse'', JNum (rmse_of rng k ! i)), (''mae'', JNum (mae_of rng k ! i))])
       (enumerate 0 pollutants_for_eval))"

text \<open>
  \<open>simulate_model_data\<close>; its frame argument is \<open>None\<close> or a frame.
\<close>

definition simulate_model_data ::
  "frame option \<Rightarrow> int \<Rightarrow> string \<Rightarrow> (nat \<Rightarrow> real) \<Rightarrow> error + json" where
  "simulate_model_data df_filtered horizon selected_model rng =
     (case df_filtered of
        None \<Rightarrow> Inr (empty_model_data rng horizon)
      | Some df \<Rightarrow>
          if empty df then Inr (empty_model_data rng horizon)
          else
            then_e (getitem df ''timestamp'') (\<lambda>ts.
            then_e (traverse dt_strftime (take 20 ts)) (\<lambda>timestamps.
            then_e (getitem df ''PM2.5'') (\<lambda>pm25.
              let historical_pm25 = take 20 pm25
              in then_e (trend_factor selected_model) (\<lambda>trend.
                 then_e (forecast_values (last_actual_of historical_pm25) trend horizon rng) (\<lambda>fv.
                   let h = nat horizon
                   in Inr (JObj
                        [(''performance'', performance_data rng),
                         (''forecast'',
                           JObj [(''labels'', JList (timestamps @ forecast_hours horizon)),
                                 (''actual'',
                                    JList (map json_of_cell historical_pm25 @ replicate h JNull)),
                                 (''forecast'',
                                    JList (replicate 20 JNull @ map json_of_float fv)),
                                 (''ci_lower'',
                                    JList (replicate 20 JNull @ map json_of_float (ci_lower_of fv))),
                                 (''ci_upper'',
                                    JList (replicate 20 JNull @ map json_of_float (ci_upper_of fv)))]),
                         (''accuracy_table'', accuracy_table rng)])))))))"

section \<open>Dashboards 1 and 2: the dashboard data\<close>

text \<open>
  \<open>if air_aware_data is None or scaler is None: load_and_preprocess_data()\<close>; an exception of
  the loader ends the call.
\<close>

definition ensure_loaded ::
  "(string \<Rightarrow> real option) \<Rightarrow> (cell \<Rightarrow> int option) \<Rightarrow> frame option \<Rightarrow> state
     \<Rightarrow> state \<times> (error + unit)" where
  "ensure_loaded pf dt csv s =
     (if air_aware_data s = None \<or> scaler s = None
      then (case load_and_preprocess_data pf dt csv s of
              (s', Inl e) \<Rightarrow> (s', Inl e)
            | (s', Inr r) \<Rightarrow> (s', Inr ()))
      else (s, Inr ()))"

text \<open>
  \<open>df.dropna(subset=['timestamp'], inplace=True)\<close> changes the object at the address
  \<open>df\<close> in place.
\<close>

definition dropna_inplace :: "nat \<Rightarrow> state \<Rightarrow> state \<times> (error + unit)" where
  "dropna_inplace df s =
     (case getitem (objs s ! df) ''timestamp'' of
        Inl e \<Rightarrow> (s, Inl e)
      | Inr ts \<Rightarrow>
          (s\<lparr>objs := (objs s)[df := select_rows (map (\<lambda>x. \<not> isna x) ts) (objs s ! df)]\<rparr>,
           Inr ()))"

text \<open>
  \<open>sort_values('timestamp')\<close> on a column of timestamps, rows with equal times staying in
  their order. It runs right after the rows without a timestamp were dropped; a cell that
  is no timestamp raises TypeError.
\<close>

definition time_keys :: "cell list \<Rightarrow> error + int list" where
  "time_keys ts = traverse (\<lambda>c. case c of Time t \<Rightarrow> Inr t | _ \<Rightarrow> Inl TypeError) ts"

definition sort_values :: "bool \<Rightarrow> frame \<Rightarrow> error + frame" where
  "sort_values ascending df =
     then_e (getitem df ''timestamp'') (\<lambda>ts.
     then_e (time_keys ts) (\<lambda>ks.
       Inr (take_rows (sort_key (\<lambda>i. if ascending then ks ! i else - (ks ! i)) [0..<length ks])
              df)))"

text \<open>
  \<open>df.sort_values('timestamp', ascending=False).head(24).sort_values('timestamp')\<close>.
\<close>

definition last_24 :: "frame \<Rightarrow> error + frame" where
  "last_24 df = then_e (sort_values False df) (\<lambda>d. sort_values True (head 24 d))"

text \<open>
  Dashboard 1. The arguments \<open>city\<close> and \<open>time_range\<close> are not used. The copies of the
  dataset are new objects; the response is computed from the last of them.
\<close>

definition dashboard_body_1 :: "frame \<Rightarrow> MinMaxScaler \<Rightarrow> string \<Rightarrow> error + json" where
  "dashboard_body_1 df sc pollutant =
     then_e (time_series_data df pollutant) (\<lambda>time_series_data.
     then_e (get_unscaled_series_1 df pollutant sc pollutant_cols) (\<lambda>selected_pollutant_series.
     then_e (get_unscaled_series_1 df ''PM2.5'' sc pollutant_cols) (\<lambda>pm25_unscaled_series.
     then_e (correlation_data df sc) (\<lambda>correlation_data.
       Inr (JObj [(''time_series'', time_series_data),
                  (''summary'', summary_of selected_pollutant_series),
                  (''distribution'', distribution_data pm25_unscaled_series),
                  (''correlations'', correlation_data),
                  (''data_quality'',
                     JObj [(''completeness'', JInt 92), (''validity'', JInt 87)])])))))"

definition not_initialized :: json where
  "not_initialized = JObj [(''error'', JStr ''Data or Scaler is not initialized properly.'')]"

definition get_dashboard_data_1 ::
  "(string \<Rightarrow> real option) \<Rightarrow> (cell \<Rightarrow> int option) \<Rightarrow> frame option \<Rightarrow> state
     \<Rightarrow> string option \<Rightarrow> string \<Rightarrow> string \<Rightarrow> state \<times> (error + json)" where
  "get_dashboard_data_1 pf dt csv s city time_range pollutant =
     (case ensure_loaded pf dt csv s of
        (s0, Inl e) \<Rightarrow> (s0, Inl e)
      | (s0, Inr u) \<Rightarrow>
          (case air_aware_data s0 of
             None \<Rightarrow> (s0, Inl AttributeError)
           | Some a \<Rightarrow>
               (case scaler s0 of
                  None \<Rightarrow> (s0, Inr not_initialized)
                | Some sc \<Rightarrow>
                    if empty (objs s0 ! a) then (s0, Inr not_initialized)
                    else
                      (let (df, s1) = new_obj (objs s0 ! a) s0
                       in case dropna_inplace df s1 of
                            (s2, Inl e) \<Rightarrow> (s2, Inl e)
                          | (s2, Inr u) \<Rightarrow>
                              (case last_24 (objs s2 ! df) of
                                 Inl e \<Rightarrow> (s2, Inl e)
                               | Inr recent \<Rightarrow>
                                   (let (df, s3) = new_obj recent s2
                                    in (s3, dashboard_body_1 (objs s3 ! df) sc pollutant)))))))"

text \<open>
  Dashboard 2. The city filter runs when a city is given and the frame has the column
  \<open>City\<close>; an unknown city is replaced by the city of the first row.
\<close>

definition first_cell :: "cell list \<Rightarrow> error + cell" where
  "first_cell col = (case col of [] \<Rightarrow> Inl IndexError | x # xs \<Rightarrow> Inr x)"

definition filter_city :: "string \<Rightarrow> nat \<Rightarrow> state \<Rightarrow> state \<times> (error + nat)" where
  "filter_city city df s =
     (case map_of (objs s ! df) ''City'' of
        None \<Rightarrow> (s, Inr df)
      | Some col \<Rightarrow>
          (case (if Str city \<in> set col then Inr (Str city) else first_cell col) of
             Inl e \<Rightarrow> (s, Inl e)
           | Inr c \<Rightarrow>
               (let (df', s') = new_obj (select_rows (map (\<lambda>x. x = c \<and> \<not> isna x) col) (objs s ! df)) s
                in (s', Inr df'))))"

definition empty_response :: "(nat \<Rightarrow> real) \<Rightarrow> int \<Rightarrow> error + json" where
  "empty_response rng horizon =
     then_e (simulate_model_data (Some []) horizon ''LSTM'' rng) (\<lambda>model_output.
       Inr (JObj [(''time_series'', JObj [(''x'', JList []), (''y'', JList [])]),
                  (''summary'',
                     JObj [(''mean'', JNum 0), (''median'', JNum 0), (''min'', JNum 0),
                           (''max'', JNum 0), (''std_dev'', JNum 0), (''data_points'', JInt 0)]),
                  (''distribution'',
                     JObj [(''labels'', JList (map JStr dashboard_labels)),
                           (''counts'', JList (replicate 6 (JInt 0)))]),
                  (''correlations'',
                     (let ps = filter (\<lambda>p. p \<noteq> ''AQI'') pollutant_cols
                      in JObj (map (\<lambda>p. (p, JObj (map (\<lambda>q. (q, JNum 0)) ps))) ps))),
                  (''data_quality'', JObj [(''completeness'', JInt 0), (''validity'', JInt 0)]),
                  (''model_output'', model_output)]))"

definition dashboard_body_2 ::
  "frame \<Rightarrow> MinMaxScaler \<Rightarrow> string \<Rightarrow> string \<Rightarrow> int \<Rightarrow> (nat \<Rightarrow> real) \<Rightarrow> error + json" where
  "dashboard_body_2 df sc pollutant model horizon rng =
     (if empty df then empty_response rng horizon
      else
        then_e (time_series_data df pollutant) (\<lambda>time_series_data.
        then_e (get_unscaled_series df pollutant sc pollutant_cols) (\<lambda>selected_pollutant_series.
        then_e (correlation_data df sc) (\<lambda>correlation_data.
        then_e (simulate_model_data (Some df) horizon model rng) (\<lambda>model_output.
          Inr (JObj [(''time_series'', time_series_data),
                     (''summary'', summary_of selected_pollutant_series),
                     (''distribution'', distribution_data selected_pollutant_series),
                     (''correlations'', correlation_data),
                     (''data_quality'',
                        JObj [(''completeness'', JInt 92), (''validity'', JInt 87)]),
                     (''model_output'', model_output)]))))))"

definition get_dashboard_data_2 ::
  "(string \<Rightarrow> real option) \<Rightarrow> (cell \<Rightarrow> int option) \<Rightarrow> frame option \<Rightarrow> (nat \<Rightarrow> real) \<Rightarrow> state
     \<Rightarrow> string option \<Rightarrow> string \<Rightarrow> string \<Rightarrow> string \<Rightarrow> int \<Rightarrow> state \<times> (error + json)" where
  "get_dashboard_data_2 pf dt csv rng s city time_range pollutant model horizon =
     (case ensure_loaded pf dt csv s of
        (s0, Inl e) \<Rightarrow> (s0, Inl e)
      | (s0, Inr u) \<Rightarrow>
          (case air_aware_data s0 of
             None \<Rightarrow> (s0, Inl AttributeError)
           | Some a \<Rightarrow>
               (case scaler s0 of
                  None \<Rightarrow> (s0, Inr not_initialized)
                | Some sc \<Rightarrow>
                    if empty (objs s0 ! a) then (s0, Inr not_initialized)
                    else
                      (let (df, s1) = new_obj (objs s0 ! a) s0
                       in case (case city of
                                  None \<Rightarrow> (s1, Inr df)
                                | Some c \<Rightarrow> if c = [] then (s1, Inr df) else filter_city c df s1) of
                            (s2, Inl e) \<Rightarrow> (s2, Inl e)
                          | (s2, Inr df) \<Rightarrow>
                              (case dropna_inplace df s2 of
                                 (s3, Inl e) \<Rightarrow> (s3, Inl e)
                               | (s3, Inr u) \<Rightarrow>
                                   (case last_24 (objs s3 ! df) of
                                      Inl e \<Rightarrow> (s3, Inl e)
                                    | Inr recent \<Rightarrow>
                                        (let (df, s4) = new_obj recent s3
                                         in (s4, dashboard_body_2 (objs s4 ! df) sc pollutant
                                                   model horizon rng))))))))"


section \<open>Dashboard 3: the loader of \<open>DataHandler\<close>\<close>

text \<open>\<open>str.strip()\<close> removes leading and trailing white space (here: the ASCII white space).\<close>

definition is_space :: "char \<Rightarrow> bool" where
  "is_space c =
     (c \<in> set [CHR '' '', CHR 0x09, CHR 0x0A, CHR 0x0B, CHR 0x0C, CHR 0x0D,
                CHR 0x1C, CHR 0x1D, CHR 0x1E, CHR 0x1F])"

definition strip :: "string \<Rightarrow> string" where
  "strip s = rev (dropWhile is_space (rev (dropWhile is_space s)))"

definition replace_char :: "char \<Rightarrow> char \<Rightarrow> string \<Rightarrow> string" where
  "replace_char a b s = map (\<lambda>c. if c = a then b else c) s"

text \<open>\<open>col.strip().replace(" ", "_").replace("-", "_")\<close> for every column name.\<close>

definition normalize_name :: "string \<Rightarrow> string" where
  "normalize_name col = replace_char CHR ''-'' CHR ''_'' (replace_char CHR '' '' CHR ''_'' (strip col))"

definition normalize_columns :: "frame \<Rightarrow> frame" where
  "normalize_columns df = map (\<lambda>(c, xs). (normalize_name c, xs)) df"

text \<open>
  The guarded steps of \<open>_load_data\<close>: each runs only when its column is present, so the
  lookup of the column and the test \<open>in df.columns\<close> are one case distinction.
\<close>

definition convert_time_3 :: "(cell \<Rightarrow> int option) \<Rightarrow> frame \<Rightarrow> frame" where
  "convert_time_3 dt df =
     (case map_of df ''Time'' of
        None \<Rightarrow> df
      | Some xs \<Rightarrow> setitem df ''Time'' (map (to_datetime dt) xs))"

text \<open>\<open>pd.to_numeric(..., errors='coerce').fillna(0)\<close> on one cell.\<close>

definition numeric_or_zero :: "(string \<Rightarrow> real option) \<Rightarrow> cell \<Rightarrow> cell" where
  "numeric_or_zero pf x = fillna (Some 0) (to_numeric pf x)"

definition clean_aqi :: "(string \<Rightarrow> real option) \<Rightarrow> frame \<Rightarrow> frame" where
  "clean_aqi pf df =
     (case map_of df ''AQI'' of
        None \<Rightarrow> df
      | Some xs \<Rightarrow>
          (let d = select_rows (map (\<lambda>x. \<not> isna x) xs) df
           in case map_of d ''AQI'' of
                None \<Rightarrow> d
              | Some ys \<Rightarrow> setitem d ''AQI'' (map (numeric_or_zero pf) ys)))"

definition fill_zero :: "(string \<Rightarrow> real option) \<Rightarrow> string \<Rightarrow> frame \<Rightarrow> frame" where
  "fill_zero pf pollutant df =
     (case map_of df pollutant of
        None \<Rightarrow> df
      | Some xs \<Rightarrow> setitem df pollutant (map (numeric_or_zero pf) xs))"

definition fill_pollutants :: "(string \<Rightarrow> real option) \<Rightarrow> frame \<Rightarrow> frame" where
  "fill_pollutants pf df = fold (fill_zero pf) [''PM2.5'', ''PM10'', ''O3''] df"

text \<open>
  \<open>DataHandler._load_data\<close>: a failure to read the CSV (the argument \<open>None\<close>) is raised
  again as \<open>Exception("Error reading CSV file: ...")\<close>.
\<close>

definition DataHandler_load_data ::
  "(string \<Rightarrow> real option) \<Rightarrow> (cell \<Rightarrow> int option) \<Rightarrow> frame option \<Rightarrow> error + frame" where
  "DataHandler_load_data pf dt csv =
     (case csv of
        None \<Rightarrow> Inl (Exception ''Error reading CSV file'')
      | Some df \<Rightarrow>
          Inr (fill_pollutants pf (clean_aqi pf (convert_time_3 dt (normalize_columns df)))))"

section \<open>Dashboard 3: the forecast route\<close>












section \<open>Dashboard 4: the pollutant forecast\<close>




section \<open>Sample data\<close>

text \<open>
  A small CSV content, a number parser and a date parser, used to run the definitions on
  concrete inputs. The third row has a text where a number is expected and a negative
  reading; the second row has a missing value.
\<close>

definition sample_csv :: frame where
  "sample_csv =
     [(''City'', [Str ''Delhi'', Str ''Delhi'', Str ''Pune'']),
      (''Time'', [Str ''01-01-2024 10:00'', Str ''01-01-2024 11:00'', Str ''01-01-2024 10:00'']),
      (''AQI'', [Num 100, Num 200, Num 150]),
      (''PM2.5'', [Num 10, Num 30, Str ''n/a'']),
      (''PM10'', [Num 1, Num 2, Num 3]),
      (''O3'', [Num 5, Num 5, Num 5]),
      (''NO2'', [Num 7, NaN, Num 9]),
      (''SO2'', [Num 2, Num 4, Num (-1)]),
      (''CO'', [Num 1, Num 3, Num 2])]"

definition sample_pf :: "string \<Rightarrow> real option" where
  "sample_pf s = (if s = ''12.5'' then Some (25 / 2) else None)"

definition sample_dt :: "cell \<Rightarrow> int option" where
  "sample_dt c =
     (if c = Str ''01-01-2024 10:00'' then Some 1704103200
      else if c = Str ''01-01-2024 11:00'' then Some 1704106800
      else None)"

definition sample_scaler :: minmax where
  "sample_scaler =
     \<lparr>sk_data_min = [Some 100, Some 10, Some 1, Some 5, Some 7, Some 2, Some 1],
      sk_data_max = [Some 200, Some 30, Some 2, Some 5, Some 8, Some 4, Some 3],
      sk_data_range = [Some 100, Some 20, Some 1, Some 0, Some 1, Some 2, Some 2],
      sk_scale = [Some (1 / 100), Some (1 / 20), Some 1, Some 1, Some 1, Some (1 / 2), Some (1 / 2)],
      sk_min = [Some (- 1), Some (- (1 / 2)), Some (- 1), Some (- 5), Some (- 7), Some (- 1),
                Some (- (1 / 2))]\<rparr>"

definition sample_scaled :: frame where
  "sample_scaled =
     [(''City'', [Str ''Delhi'', Str ''Delhi'']),
      (''timestamp'', [Time 1704103200, Time 1704106800]),
      (''AQI'', [Num 0, Num 1]), (''PM2.5'', [Num 0, Num 1]), (''PM10'', [Num 0, Num 1]),
      (''O3'', [Num 0, Num 0]), (''NO2'', [Num 0, Num 1]), (''SO2'', [Num 0, Num 1]),
      (''CO'', [Num 0, Num 1])]"

text \<open>The state in which the loader leaves the module on the sample.\<close>

definition sample_state :: state where
  "sample_state =
     \<lparr>objs = [sample_scaled], air_aware_data = Some 0, scaler = Some (Fitted sample_scaler)\<rparr>"

text \<open>The pollutant columns of the sample in the original units, without AQI.\<close>

definition sample_unscaled :: "(string \<times> real list) list" where
  "sample_unscaled =
     [(''PM2.5'', [10, 30]), (''PM10'', [1, 2]), (''O3'', [5, 5]), (''NO2'', [7, 8]),
      (''SO2'', [2, 4]), (''CO'', [1, 3])]"

text \<open>A stream of draws (every draw is 1/150), and small frames for Dashboards 3 and 4.\<close>

definition sample_rng :: "nat \<Rightarrow> real" where
  "sample_rng k = 1 / 150"



section \<open>Properties of the scaler\<close>







section \<open>Properties of frames and loops\<close>











section \<open>Properties of the loader\<close>











section \<open>The column loops of the loaders\<close>













section \<open>Properties of the forecast generators\<close>




lemma traverse_map_Inr: "traverse (\<lambda>x. Inr (f x)) xs = Inr (map f xs)"
  by (induction xs) auto

lemma forecast_values_Num:
  "forecast_values (Num r) trend horizon rng =
     Inr (map (\<lambda>i. Some (r + of_nat i * trend + uniform (- (1 / 100)) (1 / 100) (rng (32 + (i - 1)))))
            [1..<Suc (nat horizon)])"
  by (simp add: forecast_values_def traverse_map_Inr)






section \<open>The responses of \<open>get_dashboard_data\<close>\<close>

lemma then_e_Inr_iff: "then_e m f = Inr y \<longleftrightarrow> (\<exists>x. m = Inr x \<and> f x = Inr y)"
  by (cases m) (simp_all add: then_e_def)

lemma dashboard_body_1_Inr:
  assumes "dashboard_body_1 df sc pollutant = Inr resp"
  shows "\<exists>ts sm ds C. correlation_data df sc = Inr C \<and>
           resp = JObj [(''time_series'', ts), (''summary'', sm), (''distribution'', ds),
                        (''correlations'', C),
                        (''data_quality'',
                           JObj [(''completeness'', JInt 92), (''validity'', JInt 87)])]"
  using assms unfolding dashboard_body_1_def then_e_Inr_iff by blast

lemma empty_response_Inr:
  assumes "empty_response rng horizon = Inr resp"
  shows "\<exists>ts sm ds dq mo.
           resp = JObj [(''time_series'', ts), (''summary'', sm), (''distribution'', ds),
                        (''correlations'',
                           (let ps = filter (\<lambda>p. p \<noteq> ''AQI'') pollutant_cols
                            in JObj (map (\<lambda>p. (p, JObj (map (\<lambda>q. (q, JNum 0)) ps))) ps))),
                        (''data_quality'', dq), (''model_output'', mo)]"
  using assms unfolding empty_response_def then_e_Inr_iff by blast

lemma dashboard_body_2_Inr:
  assumes "dashboard_body_2 df sc pollutant model horizon rng = Inr resp"
  shows "(empty df \<and> empty_response rng horizon = Inr resp) \<or>
         (\<exists>ts sm ds C mo. correlation_data df sc = Inr C \<and>
           resp = JObj [(''time_series'', ts), (''summary'', sm), (''distribution'', ds),
                        (''correlations'', C),
                        (''data_quality'',
                           JObj [(''completeness'', JInt 92), (''validity'', JInt 87)]),
                        (''model_output'', mo)])"
proof (cases "empty df")
  case True
  then show ?thesis using assms by (simp add: dashboard_body_2_def)
next
  case False
  then show ?thesis
    using assms by (simp add: dashboard_body_2_def then_e_Inr_iff) blast
qed

lemma get_dashboard_data_1_Inr:
  assumes "get_dashboard_data_1 pf dt csv s city time_range pollutant = (s', Inr resp)"
  shows "resp = not_initialized \<or> (\<exists>df sc. dashboard_body_1 df sc pollutant = Inr resp)"
  using assms unfolding get_dashboard_data_1_def
  by (auto simp: Let_def split: prod.splits sum.splits option.splits if_splits)

lemma get_dashboard_data_2_Inr:
  assumes "get_dashboard_data_2 pf dt csv rng s city time_range pollutant model horizon =
             (s', Inr resp)"
  shows "resp = not_initialized \<or>
         (\<exists>df sc. dashboard_body_2 df sc pollutant model horizon rng = Inr resp)"
  using assms unfolding get_dashboard_data_2_def
  by (auto simp: Let_def split: prod.splits sum.splits option.splits if_splits)

text \<open>The dashboard call on the sample.\<close>

lemma sample_not_empty: "\<not> empty sample_scaled"
  by (simp add: empty_def sample_scaled_def n_rows_def)

lemma sample_last_24: "last_24 sample_scaled = Inr sample_scaled"
  by (simp add: last_24_def sort_values_def then_e_def getitem_def sample_scaled_def time_keys_def
        take_rows_def head_def upt_rec)

lemma sample_dropna: "select_rows [True, True] sample_scaled = sample_scaled"
  by (simp add: select_rows_def select_mask_def sample_scaled_def)

lemma sample_time_series:
  "time_series_data sample_scaled ''PM2.5'' =
     Inr (JObj [(''x'', JList [JStr (strftime_HM 1704103200), JStr (strftime_HM 1704106800)]),
                (''y'', JList [JNum 0, JNum 1])])"
  by (simp add: time_series_data_def then_e_def getitem_def sample_scaled_def)

lemma sample_series:
  "unscale sample_scaled ''PM2.5'' (Fitted sample_scaler) pollutant_cols = Inr [10, 30]"
  by (simp add: unscale_def then_e_def getitem_def sample_scaled_def pollutant_cols_def
        inverse_transform_def check_array_def n_samples_def n_rows_def apply_features_def
        inverse1_def sample_scaler_def fsub_def fdiv_def nan_to_num_def Let_def upt_rec)

lemma sample_correlation:
  "correlation_data sample_scaled (Fitted sample_scaler) =
     Inr (json_of_matrix (corr_abs sample_unscaled))"
  by (simp add: correlation_data_def then_e_def values_of_def getitem_def sample_scaled_def
        pollutant_cols_def inverse_transform_def check_array_def n_samples_def
        apply_features_def inverse1_def sample_scaler_def fsub_def fdiv_def nan_to_num_def
        sample_unscaled_def Let_def upt_rec)

lemma sample_model:
  "\<exists>mo. simulate_model_data (Some sample_scaled) 4 ''LSTM'' sample_rng = Inr mo"
  by (simp add: simulate_model_data_def empty_def n_rows_def then_e_def getitem_def
        sample_scaled_def trend_factor_def forecast_values_Num last_actual_of_def Let_def)


lemma sample_call_1:
  "get_dashboard_data_1 pf dt csv sample_state city time_range ''PM2.5'' =
     (sample_state\<lparr>objs := [sample_scaled, sample_scaled, sample_scaled]\<rparr>,
      dashboard_body_1 sample_scaled (Fitted sample_scaler) ''PM2.5'')"
proof -
  have ts: "getitem sample_scaled ''timestamp'' = Inr [Time 1704103200, Time 1704106800]"
    by (simp add: getitem_def sample_scaled_def)
  show ?thesis
    by (simp add: get_dashboard_data_1_def ensure_loaded_def sample_state_def sample_not_empty
          new_obj_def dropna_inplace_def ts isna_def sample_dropna sample_last_24 Let_def)
qed

lemma sample_call_2:
  "get_dashboard_data_2 pf dt csv rng sample_state None time_range ''PM2.5'' model horizon =
     (sample_state\<lparr>objs := [sample_scaled, sample_scaled, sample_scaled]\<rparr>,
      dashboard_body_2 sample_scaled (Fitted sample_scaler) ''PM2.5'' model horizon rng)"
proof -
  have ts: "getitem sample_scaled ''timestamp'' = Inr [Time 1704103200, Time 1704106800]"
    by (simp add: getitem_def sample_scaled_def)
  show ?thesis
    by (simp add: get_dashboard_data_2_def ensure_loaded_def sample_state_def sample_not_empty
          new_obj_def dropna_inplace_def ts isna_def sample_dropna sample_last_24 Let_def)
qed

lemma sample_body_1:
  "dashboard_body_1 sample_scaled (Fitted sample_scaler) ''PM2.5'' =
     Inr (JObj [(''time_series'',
                   JObj [(''x'', JList [JStr (strftime_HM 1704103200), JStr (strftime_HM 1704106800)]),
                         (''y'', JList [JNum 0, JNum 1])]),
                (''summary'', summary_of [10, 30]),
                (''distribution'', distribution_data [10, 30]),
                (''correlations'', json_of_matrix (corr_abs sample_unscaled)),
                (''data_quality'', JObj [(''completeness'', JInt 92), (''validity'', JInt 87)])])"
  by (simp add: dashboard_body_1_def then_e_def sample_time_series get_unscaled_series_1_def
        sample_not_empty sample_series sample_correlation)

lemma sample_body_2:
  "\<exists>mo. dashboard_body_2 sample_scaled (Fitted sample_scaler) ''PM2.5'' ''LSTM'' 4 sample_rng =
     Inr (JObj [(''time_series'',
                   JObj [(''x'', JList [JStr (strftime_HM 1704103200), JStr (strftime_HM 1704106800)]),
                         (''y'', JList [JNum 0, JNum 1])]),
                (''summary'', summary_of [10, 30]),
                (''distribution'', distribution_data [10, 30]),
                (''correlations'', json_of_matrix (corr_abs sample_unscaled)),
                (''data_quality'', JObj [(''completeness'', JInt 92), (''validity'', JInt 87)]),
                (''model_output'', mo)])"
proof -
  obtain mo where "simulate_model_data (Some sample_scaled) 4 ''LSTM'' sample_rng = Inr mo"
    using sample_model by blast
  then show ?thesis
    by (simp add: dashboard_body_2_def then_e_def sample_time_series get_unscaled_series_def
          sample_not_empty sample_series sample_correlation)
qed

section \<open>The globals during \<open>get_dashboard_data\<close>\<close>









section \<open>Claims\<close>






text \<open>
  Claim C8. On an empty frame \<open>_get_unscaled_series\<close> returns the series with the single
  element 0, in Dashboard 2 and in Dashboard 1; it neither raises nor returns an empty
  series.
\<close>

theorem empty_frame_series:
  "empty df \<Longrightarrow> get_unscaled_series df name sc cols = Inr [0] \<and>
                get_unscaled_series_1 df name sc cols = Inr [0]"
  by (simp add: get_unscaled_series_def get_unscaled_series_1_def)

theorem empty_frame_series_witness:
  "empty [(''PM2.5'', [])] \<and>
   get_unscaled_series [(''PM2.5'', [])] ''PM2.5'' Unfitted pollutant_cols = Inr [0] \<and>
   get_unscaled_series_1 [(''PM2.5'', [])] ''PM2.5'' Unfitted pollutant_cols = Inr [0]"
proof -
  have e: "empty [(''PM2.5'', [])]" by (simp add: empty_def n_rows_def)
  show ?thesis using e empty_frame_series[OF e] by simp
qed



text \<open>
  Claim C4, as amended. In Dashboards 1 and 2 the loader does not raise when the CSV file is
  missing: it stores and returns the one-row placeholder (City 'Loading Failed', the
  timestamp 2024-01-01, PM2.5 = 0.0, AQI = 0.0) with a fresh, unfitted scaler. The loader
  of Dashboard 3 raises \<open>Exception("Error reading CSV file: ...")\<close> instead.
\<close>

theorem missing_file_placeholder:
  "load_and_preprocess_data pf dt None s =
     (s\<lparr>objs := objs s @ [dummy_frame], air_aware_data := Some (length (objs s)),
        scaler := Some Unfitted\<rparr>,
      Inr (length (objs s), Unfitted)) \<and>
   n_rows dummy_frame = 1 \<and>
   getitem dummy_frame ''City'' = Inr [Str ''Loading Failed''] \<and>
   getitem dummy_frame ''timestamp'' = Inr [Time 1704067200] \<and>
   getitem dummy_frame ''PM2.5'' = Inr [Num 0] \<and>
   getitem dummy_frame ''AQI'' = Inr [Num 0] \<and>
   DataHandler_load_data pf dt None = Inl (Exception ''Error reading CSV file'')"
  by (simp add: load_and_preprocess_data_def new_obj_def dummy_frame_def n_rows_def
        getitem_def DataHandler_load_data_def)

text \<open>
  The claim as stated, for every variant, fails on Dashboard 3: with the file missing its
  loader raises.
\<close>

theorem dashboard3_loader_raises:
  "DataHandler_load_data sample_pf sample_dt None = Inl (Exception ''Error reading CSV file'')"
  by (simp add: DataHandler_load_data_def)






text \<open>
  Claim C6, as amended. A call of \<open>get_dashboard_data\<close> that returns a response other than
  the message that the data is not initialized returns a dict with exactly these keys, in
  this order: in Dashboard 2 \<open>time_series\<close>, \<open>summary\<close>, \<open>distribution\<close>, \<open>correlations\<close>,
  \<open>data_quality\<close> and \<open>model_output\<close>; in Dashboard 1 the first five of them, without
  \<open>model_output\<close>.
\<close>

theorem dashboard_response_fields:
  "(get_dashboard_data_2 pf dt csv rng s city time_range pollutant model horizon = (s', Inr resp)
      \<longrightarrow> resp \<noteq> not_initialized
      \<longrightarrow> keys resp = [''time_series'', ''summary'', ''distribution'', ''correlations'',
                       ''data_quality'', ''model_output'']) \<and>
   (get_dashboard_data_1 pf dt csv s1 city time_range pollutant = (s1', Inr resp1)
      \<longrightarrow> resp1 \<noteq> not_initialized
      \<longrightarrow> keys resp1 = [''time_series'', ''summary'', ''distribution'', ''correlations'',
                        ''data_quality''])"
proof (intro conjI impI)
  assume a: "get_dashboard_data_2 pf dt csv rng s city time_range pollutant model horizon =
               (s', Inr resp)" and n: "resp \<noteq> not_initialized"
  from get_dashboard_data_2_Inr[OF a] n obtain df sc where
    b: "dashboard_body_2 df sc pollutant model horizon rng = Inr resp" by blast
  from dashboard_body_2_Inr[OF b]
  show "keys resp = [''time_series'', ''summary'', ''distribution'', ''correlations'',
                     ''data_quality'', ''model_output'']"
  proof
    assume "empty df \<and> empty_response rng horizon = Inr resp"
    then show ?thesis using empty_response_Inr[of rng horizon resp] by auto
  next
    assume "\<exists>ts sm ds C mo. correlation_data df sc = Inr C \<and>
           resp = JObj [(''time_series'', ts), (''summary'', sm), (''distribution'', ds),
                        (''correlations'', C),
                        (''data_quality'',
                           JObj [(''completeness'', JInt 92), (''validity'', JInt 87)]),
                        (''model_output'', mo)]"
    then show ?thesis by auto
  qed
next
  assume a: "get_dashboard_data_1 pf dt csv s1 city time_range pollutant = (s1', Inr resp1)"
    and n: "resp1 \<noteq> not_initialized"
  from get_dashboard_data_1_Inr[OF a] n obtain df sc where
    b: "dashboard_body_1 df sc pollutant = Inr resp1" by blast
  from dashboard_body_1_Inr[OF b]
  show "keys resp1 = [''time_series'', ''summary'', ''distribution'', ''correlations'',
                      ''data_quality'']"
    by auto
qed

theorem dashboard_response_fields_witness:
  "\<exists>resp resp1.
     get_dashboard_data_2 sample_pf sample_dt (Some sample_csv) sample_rng sample_state None
        ''Last 24 Hours'' ''PM2.5'' ''LSTM'' 4 =
       (sample_state\<lparr>objs := [sample_scaled, sample_scaled, sample_scaled]\<rparr>, Inr resp) \<and>
     resp \<noteq> not_initialized \<and>
     keys resp = [''time_series'', ''summary'', ''distribution'', ''correlations'',
                  ''data_quality'', ''model_output''] \<and>
     get_dashboard_data_1 sample_pf sample_dt (Some sample_csv) sample_state None
        ''Last 24 Hours'' ''PM2.5'' =
       (sample_state\<lparr>objs := [sample_scaled, sample_scaled, sample_scaled]\<rparr>, Inr resp1) \<and>
     resp1 \<noteq> not_initialized \<and>
     keys resp1 = [''time_series'', ''summary'', ''distribution'', ''correlations'',
                   ''data_quality'']"
proof -
  obtain resp where
    r: "dashboard_body_2 sample_scaled (Fitted sample_scaler) ''PM2.5'' ''LSTM'' 4 sample_rng =
          Inr resp" and rn: "resp \<noteq> not_initialized"
    using sample_body_2 by (auto simp: not_initialized_def)
  obtain resp1 where
    r1: "dashboard_body_1 sample_scaled (Fitted sample_scaler) ''PM2.5'' = Inr resp1"
    and rn1: "resp1 \<noteq> not_initialized"
    using sample_body_1 by (auto simp: not_initialized_def)
  have c2: "get_dashboard_data_2 sample_pf sample_dt (Some sample_csv) sample_rng sample_state None
        ''Last 24 Hours'' ''PM2.5'' ''LSTM'' 4 =
       (sample_state\<lparr>objs := [sample_scaled, sample_scaled, sample_scaled]\<rparr>, Inr resp)"
    by (simp only: sample_call_2 r)
  have c1: "get_dashboard_data_1 sample_pf sample_dt (Some sample_csv) sample_state None
        ''Last 24 Hours'' ''PM2.5'' =
       (sample_state\<lparr>objs := [sample_scaled, sample_scaled, sample_scaled]\<rparr>, Inr resp1)"
    by (simp only: sample_call_1 r1)
  from dashboard_response_fields[where resp = resp and ?resp1.0 = resp1 and pf = sample_pf
      and dt = sample_dt and csv = "Some sample_csv" and rng = sample_rng and s = sample_state
      and ?s1.0 = sample_state and city = None and time_range = "''Last 24 Hours''"
      and pollutant = "''PM2.5''" and model = "''LSTM''" and horizon = 4
      and s' = "sample_state\<lparr>objs := [sample_scaled, sample_scaled, sample_scaled]\<rparr>"
      and s1' = "sample_state\<lparr>objs := [sample_scaled, sample_scaled, sample_scaled]\<rparr>"]
    c1 c2 rn rn1
  show ?thesis by blast
qed

text \<open>
  The claim as stated fails on Dashboard 1: on the sample its response has five fields and
  no \<open>model_output\<close>.
\<close>

theorem dashboard1_has_no_model_output:
  "snd (get_dashboard_data_1 sample_pf sample_dt (Some sample_csv) sample_state None
          ''Last 24 Hours'' ''PM2.5'') =
     Inr (JObj [(''time_series'',
                   JObj [(''x'', JList [JStr ''10:00'', JStr ''11:00'']),
                         (''y'', JList [JNum 0, JNum 1])]),
                (''summary'', summary_of [10, 30]),
                (''distribution'', distribution_data [10, 30]),
                (''correlations'', json_of_matrix (corr_abs sample_unscaled)),
                (''data_quality'', JObj [(''completeness'', JInt 92), (''validity'', JInt 87)])]) \<and>
   field ''model_output''
     (projr (snd (get_dashboard_data_1 sample_pf sample_dt (Some sample_csv) sample_state None
                    ''Last 24 Hours'' ''PM2.5''))) = None"
proof -
  have h: "strftime_HM 1704103200 = ''10:00''" "strftime_HM 1704106800 = ''11:00''"
    by (simp_all add: strftime_HM_def two_digits_def digit_def) code_simp+
  show ?thesis by (simp add: sample_call_1 sample_body_1 h)
qed



end
